theory Spec2Isabelle
  imports Main "HOL-Library.Char_ord" "HOL-Library.List_Lexorder"
begin

section \<open>JavaScript values used by the reconciler\<close>

text \<open>
  The reconciler of \<^verbatim>\<open>src/lib/reconciler/index.js\<close> is untyped JavaScript. Several of
  its variables hold \<^verbatim>\<open>undefined\<close>, a boolean or \<^verbatim>\<open>NaN\<close> where a number or a string
  is expected, and the behaviour of the program depends on how JavaScript compares
  and subtracts such values. The primitive values are therefore modelled as a
  datatype. The numbers of the program are block indexes, depths and delays, all
  integers; \<^verbatim>\<open>NaN\<close> is a value of its own.
\<close>

datatype jsval = JUndefined | JNull | JBool bool | JNum int | JNaN | JStr string

text \<open>Decimal digits and decimal integer literals.\<close>

definition digit_of :: "char \<Rightarrow> nat option" where
  "digit_of c =
     (let k = (of_char c :: nat) in if 48 \<le> k \<and> k \<le> 57 then Some (k - 48) else None)"

fun digits_to_nat :: "nat \<Rightarrow> string \<Rightarrow> nat option" where
  "digits_to_nat acc [] = Some acc"
| "digits_to_nat acc (c # cs) =
     (case digit_of c of None \<Rightarrow> None | Some d \<Rightarrow> digits_to_nat (10 * acc + d) cs)"

definition decimal_to_int :: "string \<Rightarrow> int option" where
  "decimal_to_int s =
     (case s of
        [] \<Rightarrow> None
      | c # cs \<Rightarrow>
          if c = CHR ''-'' then
            (if cs = [] then None else map_option (\<lambda>n. - int n) (digits_to_nat 0 cs))
          else map_option int (digits_to_nat 0 s))"

definition digit_char :: "nat \<Rightarrow> char" where
  "digit_char d = char_of (48 + d)"

function nat_to_decimal :: "nat \<Rightarrow> string" where
  "nat_to_decimal n =
     (if n < 10 then [digit_char n] else nat_to_decimal (n div 10) @ [digit_char (n mod 10)])"
  by pat_completeness auto
termination
  by (relation "measure id") auto

declare nat_to_decimal.simps [simp del]

definition int_to_decimal :: "int \<Rightarrow> string" where
  "int_to_decimal i = (if i < 0 then CHR ''-'' # nat_to_decimal (nat (- i)) else nat_to_decimal (nat i))"

text \<open>
  \<^verbatim>\<open>ToNumber\<close>: \<^verbatim>\<open>undefined\<close> and \<^verbatim>\<open>NaN\<close> give \<^verbatim>\<open>NaN\<close> (here \<open>None\<close>), \<^verbatim>\<open>null\<close> and
  \<^verbatim>\<open>false\<close> give 0, \<^verbatim>\<open>true\<close> gives 1. A string is read as a decimal integer literal,
  the empty string as 0; any other string gives \<^verbatim>\<open>NaN\<close> (the reconciler never
  converts a string with a fraction, an exponent or surrounding blanks).
\<close>

fun to_number :: "jsval \<Rightarrow> int option" where
  "to_number JUndefined = None"
| "to_number JNull = Some 0"
| "to_number (JBool b) = Some (if b then 1 else 0)"
| "to_number (JNum n) = Some n"
| "to_number JNaN = None"
| "to_number (JStr s) = (if s = [] then Some 0 else decimal_to_int s)"

text \<open>The binary \<^verbatim>\<open>-\<close> converts both operands with \<^verbatim>\<open>ToNumber\<close>; \<^verbatim>\<open>NaN\<close> is absorbing.\<close>

definition js_sub :: "jsval \<Rightarrow> jsval \<Rightarrow> jsval" where
  "js_sub a b =
     (case (to_number a, to_number b) of
        (Some m, Some n) \<Rightarrow> JNum (m - n)
      | _ \<Rightarrow> JNaN)"

text \<open>
  The relational \<^verbatim>\<open><\<close>: two strings are compared lexicographically, anything else
  numerically, and a comparison with \<^verbatim>\<open>NaN\<close> is false.
\<close>

fun js_lt :: "jsval \<Rightarrow> jsval \<Rightarrow> bool" where
  "js_lt (JStr x) (JStr y) = (x < y)"
| "js_lt a b =
     (case (to_number a, to_number b) of
        (Some m, Some n) \<Rightarrow> m < n
      | _ \<Rightarrow> False)"

text \<open>
  The loose equality \<^verbatim>\<open>==\<close>: \<^verbatim>\<open>undefined\<close> and \<^verbatim>\<open>null\<close> equal each other and
  nothing else; two strings are compared as strings; every other pair of primitives
  is compared numerically, and \<^verbatim>\<open>NaN\<close> equals nothing.
\<close>

fun js_loose_eq :: "jsval \<Rightarrow> jsval \<Rightarrow> bool" where
  "js_loose_eq JUndefined b = (b = JUndefined \<or> b = JNull)"
| "js_loose_eq JNull b = (b = JUndefined \<or> b = JNull)"
| "js_loose_eq a JUndefined = False"
| "js_loose_eq a JNull = False"
| "js_loose_eq (JStr x) (JStr y) = (x = y)"
| "js_loose_eq a b =
     (case (to_number a, to_number b) of
        (Some m, Some n) \<Rightarrow> m = n
      | _ \<Rightarrow> False)"

definition js_loose_neq :: "jsval \<Rightarrow> jsval \<Rightarrow> bool" where
  "js_loose_neq a b = (\<not> js_loose_eq a b)"


section \<open>Data model\<close>

type_synonym NetworkIdentifier = string
type_synonym AccountIdentifier = string
type_synonym Currency = string

record BlockIdentifier =
  index :: int
  hash :: string

record PartialBlockIdentifier =
  partial_index :: "int option"
  partial_hash :: "string option"

record Amount =
  amount_value :: jsval
  amount_currency :: Currency

text \<open>
  The object literal \<^verbatim>\<open>{ account_identifier, currency }\<close> built at the start of
  \<^verbatim>\<open>accountReconciliation\<close>, also the shape the inactive loop reads from the entries of
  \<^verbatim>\<open>withSeenAccounts\<close>.
\<close>

record AccountCurrency =
  account_identifier :: AccountIdentifier
  currency :: Currency

text \<open>
  An element of \<^verbatim>\<open>inactiveQueue\<close>. The two writers of the queue store the block under
  the property \<^verbatim>\<open>lastCheck\<close> (\<^verbatim>\<open>inactiveAccountQueue\<close>) or store no block at all
  (\<^verbatim>\<open>handleSeenAccounts\<close>); the inactive loop reads the property \<^verbatim>\<open>last_check\<close>. Both
  properties are fields of the record, \<open>None\<close> standing for an absent property.
\<close>

record InactiveEntry =
  entry :: AccountCurrency
  lastCheck :: "BlockIdentifier option"
  last_check :: "BlockIdentifier option"

text \<open>An element of \<^verbatim>\<open>changeQueue\<close>, with the properties the active loop reads.\<close>

record BalanceChange =
  change_account_identifier :: AccountIdentifier
  change_currency :: Currency
  block :: BlockIdentifier

text \<open>The exceptions of the program. A \<^verbatim>\<open>ReconcilerError\<close> carries its \<^verbatim>\<open>type\<close>.\<close>

datatype error =
    ReconcilerError string
  | ReferenceError string
  | TypeError string
  | OtherError string

definition RECONCILIATION_INACTIVE_SLEEP_MS :: int where
  "RECONCILIATION_INACTIVE_SLEEP_MS = 5000"

definition RECONCILIATION_ACTIVE :: string where
  "RECONCILIATION_ACTIVE = ''ACTIVE''"

definition RECONCILIATION_INACTIVE :: string where
  "RECONCILIATION_INACTIVE = ''INACTIVE''"

definition RECONCILIATION_ERROR_HEAD_BEHIND_LIVE :: string where
  "RECONCILIATION_ERROR_HEAD_BEHIND_LIVE = ''ERROR_HEAD_BEHIND_LIVE''"

definition RECONCILIATION_ERROR_ACCOUNT_UPDATED :: string where
  "RECONCILIATION_ERROR_ACCOUNT_UPDATED = ''ACCOUNT_UPDATED''"

definition RECONCILIATION_ERROR_BLOCK_GONE :: string where
  "RECONCILIATION_ERROR_BLOCK_GONE = ''BLOCK_GONE''"


section \<open>Configuration and construction\<close>

text \<open>
  The argument object of the constructor: every option may be absent. The
  collaborators (\<^verbatim>\<open>networkIdentifier\<close>, \<^verbatim>\<open>helper\<close>, \<^verbatim>\<open>handler\<close>, \<^verbatim>\<open>fetcher\<close>) are kept apart
  in the environment record below, since no method ever assigns them.
\<close>

record args =
  arg_highWaterMark :: "int option"
  arg_lookupBalanceByBlock :: "bool option"
  arg_requiredDepthInactive :: "int option"
  arg_waitToCheckDiff :: "int option"
  arg_waitToCheckDiffSleep :: "int option"
  arg_withSeenAccounts :: "AccountCurrency list option"
  arg_interestingAccounts :: "AccountCurrency list option"

record configuration =
  conf_highWaterMark :: int
  conf_lookupBalanceByBlock :: bool
  conf_requiredDepthInactive :: int
  conf_waitToCheckDiff :: int
  conf_waitToCheckDiffSleep :: int
  conf_withSeenAccounts :: "AccountCurrency list"
  conf_interestingAccounts :: "AccountCurrency list option"

definition defaults :: configuration where
  "defaults =
     \<lparr> conf_highWaterMark = - 1,
       conf_lookupBalanceByBlock = True,
       conf_requiredDepthInactive = 500,
       conf_waitToCheckDiff = 10 * 1000,
       conf_waitToCheckDiffSleep = 5000,
       conf_withSeenAccounts = [],
       conf_interestingAccounts = None \<rparr>"

definition or_default :: "'a option \<Rightarrow> 'a \<Rightarrow> 'a" where
  "or_default given d = (case given of None \<Rightarrow> d | Some v \<Rightarrow> v)"

text \<open>\<^verbatim>\<open>Object.assign({}, defaults, args)\<close>: a property present in \<^verbatim>\<open>args\<close> wins.\<close>

definition Object_assign :: "configuration \<Rightarrow> args \<Rightarrow> configuration" where
  "Object_assign d a =
     \<lparr> conf_highWaterMark = or_default (arg_highWaterMark a) (conf_highWaterMark d),
       conf_lookupBalanceByBlock =
         or_default (arg_lookupBalanceByBlock a) (conf_lookupBalanceByBlock d),
       conf_requiredDepthInactive =
         or_default (arg_requiredDepthInactive a) (conf_requiredDepthInactive d),
       conf_waitToCheckDiff = or_default (arg_waitToCheckDiff a) (conf_waitToCheckDiff d),
       conf_waitToCheckDiffSleep =
         or_default (arg_waitToCheckDiffSleep a) (conf_waitToCheckDiffSleep d),
       conf_withSeenAccounts = or_default (arg_withSeenAccounts a) (conf_withSeenAccounts d),
       conf_interestingAccounts =
         (case arg_interestingAccounts a of None \<Rightarrow> conf_interestingAccounts d | Some v \<Rightarrow> Some v) \<rparr>"

text \<open>
  The mutable fields of a \<^verbatim>\<open>RosettaReconciler\<close>. \<^verbatim>\<open>seenAccounts\<close> is the object used as
  a dictionary from \<^verbatim>\<open>Hash\<close> keys to \<^verbatim>\<open>{}\<close>. \<^verbatim>\<open>highWaterMark\<close> is a \<open>jsval\<close> because the
  constructor stores a boolean in it.
\<close>

record RosettaReconciler =
  highWaterMark :: jsval
  lookupBalanceByBlock :: bool
  interestingAccounts :: "AccountCurrency list"
  inactiveQueue :: "InactiveEntry list"
  seenAccounts :: "string \<rightharpoonup> unit"
  requiredDepthInactive :: int
  waitToCheckDiff :: int
  waitToCheckDiffSleep :: int
  changeQueue :: "BalanceChange list"

text \<open>
  \<^verbatim>\<open>handleSeenAccounts\<close> pushes \<^verbatim>\<open>{ entry: s }\<close> on \<^verbatim>\<open>this.inactiveQueue\<close> for every
  element and returns the dictionary of their hashes. The function \<^verbatim>\<open>Hash\<close> of
  \<^verbatim>\<open>../utils\<close> is not among the sources and is a parameter \<open>H\<close>.
\<close>

fun handleSeenAccounts ::
  "(AccountCurrency \<Rightarrow> string) \<Rightarrow> AccountCurrency list \<Rightarrow>
   InactiveEntry list \<times> (string \<rightharpoonup> unit) \<Rightarrow> InactiveEntry list \<times> (string \<rightharpoonup> unit)"
where
  "handleSeenAccounts H [] (queue, seen) = (queue, seen)"
| "handleSeenAccounts H (s # rest) (queue, seen) =
     handleSeenAccounts H rest
       (queue @ [\<lparr> entry = s, lastCheck = None, last_check = None \<rparr>], seen(H s \<mapsto> ()))"

text \<open>
  The constructor. Line 66 assigns \<^verbatim>\<open>configuration.lookupBalanceByBlock\<close> to
  \<^verbatim>\<open>this.highWaterMark\<close>; \<^verbatim>\<open>configuration.highWaterMark\<close> is never read.
\<close>

definition new_RosettaReconciler :: "(AccountCurrency \<Rightarrow> string) \<Rightarrow> args \<Rightarrow> RosettaReconciler" where
  "new_RosettaReconciler H a =
     (let configuration = Object_assign defaults a;
          (queue, seen) = handleSeenAccounts H (conf_withSeenAccounts configuration) ([], Map.empty)
      in \<lparr> highWaterMark = JBool (conf_lookupBalanceByBlock configuration),
           lookupBalanceByBlock = conf_lookupBalanceByBlock configuration,
           interestingAccounts = or_default (conf_interestingAccounts configuration) [],
           inactiveQueue = queue,
           seenAccounts = seen,
           requiredDepthInactive = conf_requiredDepthInactive configuration,
           waitToCheckDiff = conf_waitToCheckDiff configuration,
           waitToCheckDiffSleep = conf_waitToCheckDiffSleep configuration,
           changeQueue = [] \<rparr>)"

text \<open>The empty argument object \<^verbatim>\<open>{}\<close>.\<close>

definition no_args :: args where
  "no_args =
     \<lparr> arg_highWaterMark = None, arg_lookupBalanceByBlock = None,
       arg_requiredDepthInactive = None, arg_waitToCheckDiff = None,
       arg_waitToCheckDiffSleep = None, arg_withSeenAccounts = None,
       arg_interestingAccounts = None \<rparr>"


section \<open>Collaborators\<close>

text \<open>
  The helper, the handler and the fetcher are objects supplied by the caller. Their
  methods are parameters; a method that throws returns \<open>Inl\<close>. The answers of the
  helper and of the fetcher may change while the reconciler sleeps, so these take
  the number of sleeps elapsed as their first argument.
\<close>

record helper =
  currentBlock :: "nat \<Rightarrow> error + BlockIdentifier"
  blockExists :: "nat \<Rightarrow> BlockIdentifier \<Rightarrow> error + bool"
  accountBalance ::
    "nat \<Rightarrow> AccountIdentifier \<Rightarrow> Currency \<Rightarrow> BlockIdentifier \<Rightarrow> error + (Amount \<times> BlockIdentifier)"

text \<open>
  \<^verbatim>\<open>reconciliationFailed\<close> answers with the error it returns, \<open>None\<close> for a falsy
  answer; the reconciler throws a truthy answer at once, so an exception raised by
  the callback itself is the same answer. \<^verbatim>\<open>reconciliationSucceeded\<close> answers with
  the value it returns or the exception it raises.
\<close>

record handler =
  reconciliationFailed ::
    "string \<Rightarrow> AccountIdentifier \<Rightarrow> Currency \<Rightarrow> jsval \<Rightarrow> jsval \<Rightarrow> BlockIdentifier \<Rightarrow> error option"
  reconciliationSucceeded ::
    "string \<Rightarrow> AccountIdentifier \<Rightarrow> Currency \<Rightarrow> jsval \<Rightarrow> BlockIdentifier \<Rightarrow> error + jsval"

record fetcher =
  AcountBalanceRetry ::
    "nat \<Rightarrow> NetworkIdentifier \<Rightarrow> AccountIdentifier \<Rightarrow> PartialBlockIdentifier option \<Rightarrow>
     error + (BlockIdentifier \<times> Amount list)"

text \<open>
  \<^verbatim>\<open>Hash\<close> and \<^verbatim>\<open>constructPartialBlockIdentifier\<close> of \<^verbatim>\<open>../utils\<close> are not among the
  sources; they are parameters too.
\<close>

record env =
  network :: NetworkIdentifier
  helper :: helper
  handler :: handler
  fetcher :: fetcher
  Hash :: "AccountCurrency \<Rightarrow> string"
  constructPartialBlockIdentifier :: "BlockIdentifier \<Rightarrow> PartialBlockIdentifier"

text \<open>
  What the reconciler does to the outside, in order: the calls of the helper with
  their answers, the calls of the fetcher and of the handler with their arguments,
  the sleeps and the log lines.
\<close>

datatype event =
    HelperCurrentBlock "error + BlockIdentifier"
  | HelperBlockExists BlockIdentifier "error + bool"
  | HelperAccountBalance AccountIdentifier Currency BlockIdentifier
  | FetcherAcountBalanceRetry NetworkIdentifier AccountIdentifier "PartialBlockIdentifier option"
  | HandlerReconciliationFailed string AccountIdentifier Currency jsval jsval BlockIdentifier
  | HandlerReconciliationSucceeded string AccountIdentifier Currency jsval BlockIdentifier
  | Sleep int
  | LoggerInfo

fun is_failure_call :: "event \<Rightarrow> bool" where
  "is_failure_call (HandlerReconciliationFailed ty a c b m k) = True"
| "is_failure_call ev = False"

fun is_success_call :: "event \<Rightarrow> bool" where
  "is_success_call (HandlerReconciliationSucceeded ty a c m k) = True"
| "is_success_call ev = False"

definition handler_calls :: "event list \<Rightarrow> event list" where
  "handler_calls evs = filter (\<lambda>ev. is_failure_call ev \<or> is_success_call ev) evs"


section \<open>The balance comparator\<close>

text \<open>
  Modelled from the spec: \<^verbatim>\<open>SubtractValues\<close> of \<^verbatim>\<open>../utils\<close> is not among the sources.
  The spec asks for exact base-10 subtraction of decimal strings with a decimal
  string as the result. Operands that are not decimal integer strings are outside
  what the spec describes; here the call raises on them.
\<close>

definition SubtractValues :: "jsval \<Rightarrow> jsval \<Rightarrow> error + jsval" where
  "SubtractValues a b =
     (case (a, b) of
        (JStr x, JStr y) \<Rightarrow>
          (case (decimal_to_int x, decimal_to_int y) of
             (Some m, Some n) \<Rightarrow> Inr (JStr (int_to_decimal (m - n)))
           | _ \<Rightarrow> Inl (OtherError ''SubtractValues''))
      | _ \<Rightarrow> Inl (OtherError ''SubtractValues''))"

record comparison =
  difference :: jsval
  cachedBalance :: jsval
  headIndex :: int

text \<open>
  \<^verbatim>\<open>compareBalance\<close>, with the calls it makes. The class \<^verbatim>\<open>ReconcilerError\<close> of
  \<^verbatim>\<open>../errors\<close> is not among the sources; its second constructor argument is taken to
  be the \<^verbatim>\<open>type\<close> that \<^verbatim>\<open>accountReconciliation\<close> switches on.
\<close>

definition compareBalance ::
  "env \<Rightarrow> nat \<Rightarrow> AccountIdentifier \<Rightarrow> Currency \<Rightarrow> jsval \<Rightarrow> BlockIdentifier \<Rightarrow>
   (error + comparison) \<times> event list"
where
  "compareBalance e t accountIdentifier cur amount blockIdentifier =
     (let h = currentBlock (helper e) t;
          ev1 = [HelperCurrentBlock h]
      in case h of
           Inl x \<Rightarrow> (Inl x, ev1)
         | Inr head \<Rightarrow>
             if index blockIdentifier > index head then
               (Inl (ReconcilerError RECONCILIATION_ERROR_HEAD_BEHIND_LIVE), ev1)
             else
               (let ex = blockExists (helper e) t blockIdentifier;
                    ev2 = ev1 @ [HelperBlockExists blockIdentifier ex]
                in case ex of
                     Inl x \<Rightarrow> (Inl x, ev2)
                   | Inr exists \<Rightarrow>
                       if \<not> exists then
                         (Inl (ReconcilerError RECONCILIATION_ERROR_BLOCK_GONE), ev2)
                       else
                         (let ev3 = ev2 @ [HelperAccountBalance accountIdentifier cur head]
                          in case accountBalance (helper e) t accountIdentifier cur head of
                               Inl x \<Rightarrow> (Inl x, ev3)
                             | Inr (cached, balanceBlock) \<Rightarrow>
                                 if index blockIdentifier < index balanceBlock then
                                   (Inl (ReconcilerError RECONCILIATION_ERROR_ACCOUNT_UPDATED), ev3)
                                 else
                                   (case SubtractValues (amount_value cached) amount of
                                      Inl x \<Rightarrow> (Inl x, ev3)
                                    | Inr d \<Rightarrow>
                                        (Inr \<lparr> difference = d,
                                               cachedBalance = amount_value cached,
                                               headIndex = index head \<rparr>, ev3)))))"


section \<open>Balance retrieval\<close>

text \<open>
  \<^verbatim>\<open>getCurrencyBalance\<close> calls the fetcher and then \<^verbatim>\<open>this.extractAmount\<close>. The method
  \<^verbatim>\<open>extractAmount\<close> is declared \<^verbatim>\<open>static\<close>: it is a property of the class object and
  not of its prototype, so on an instance \<^verbatim>\<open>this.extractAmount\<close> is \<^verbatim>\<open>undefined\<close> and
  the call raises a \<^verbatim>\<open>TypeError\<close>. The result type keeps the pair
  \<^verbatim>\<open>{ block, value }\<close> that the \<^verbatim>\<open>return\<close> statement would build. The fetcher's
  method has the name under which the source calls it.
\<close>

definition getCurrencyBalance ::
  "fetcher \<Rightarrow> nat \<Rightarrow> NetworkIdentifier \<Rightarrow> AccountIdentifier \<Rightarrow> Currency \<Rightarrow>
   PartialBlockIdentifier option \<Rightarrow> (error + (BlockIdentifier \<times> jsval)) \<times> event list"
where
  "getCurrencyBalance f t networkIdentifier accountIdentifier cur partialBlockIdentifier =
     (let ev = [FetcherAcountBalanceRetry networkIdentifier accountIdentifier partialBlockIdentifier]
      in case AcountBalanceRetry f t networkIdentifier accountIdentifier partialBlockIdentifier of
           Inl x \<Rightarrow> (Inl x, ev)
         | Inr (liveBlock, liveBalances) \<Rightarrow>
             (Inl (TypeError ''this.extractAmount is not a function''), ev))"

text \<open>
  \<^verbatim>\<open>bestBalance\<close>: \<open>None\<close> is the \<^verbatim>\<open>null\<close> that the method stores in
  \<^verbatim>\<open>partialBlockIdentifier\<close> when \<^verbatim>\<open>this.lookupBalanceByBlock\<close> is set.
\<close>

definition bestBalance ::
  "env \<Rightarrow> nat \<Rightarrow> RosettaReconciler \<Rightarrow> AccountIdentifier \<Rightarrow> Currency \<Rightarrow>
   PartialBlockIdentifier \<Rightarrow> (error + (BlockIdentifier \<times> jsval)) \<times> event list"
where
  "bestBalance e t r accountIdentifier cur partialBlockIdentifier =
     (let p = (if lookupBalanceByBlock r then None else Some partialBlockIdentifier)
      in getCurrencyBalance (fetcher e) t (network e) accountIdentifier cur p)"


section \<open>Inactive-queue bookkeeping\<close>

text \<open>
  \<^verbatim>\<open>ContainsAccountCurrency\<close> looks the hash up in the dictionary and tests the element
  with \<^verbatim>\<open>!= null\<close>, which holds for the stored \<^verbatim>\<open>{}\<close> and fails for an absent key.
  The hashes are taken to differ from the property names that every object
  inherits. \<^verbatim>\<open>inactiveAccountQueue\<close> is declared \<^verbatim>\<open>async\<close> but awaits nothing, so
  its body has run when the call returns.
\<close>

definition ContainsAccountCurrency ::
  "(AccountCurrency \<Rightarrow> string) \<Rightarrow> (string \<rightharpoonup> unit) \<Rightarrow> AccountCurrency \<Rightarrow> bool"
where
  "ContainsAccountCurrency H accountCurrencyMap accountCurrency =
     (accountCurrencyMap (H accountCurrency) \<noteq> None)"

definition inactiveAccountQueue ::
  "(AccountCurrency \<Rightarrow> string) \<Rightarrow> bool \<Rightarrow> AccountCurrency \<Rightarrow> BlockIdentifier \<Rightarrow>
   RosettaReconciler \<Rightarrow> RosettaReconciler"
where
  "inactiveAccountQueue H isInactive accountCurrency blockIdentifier r =
     (let shouldEnqueueInactive =
            (\<not> isInactive \<and> \<not> ContainsAccountCurrency H (seenAccounts r) accountCurrency);
          r1 = (if shouldEnqueueInactive
                then r\<lparr> seenAccounts := (seenAccounts r)(H accountCurrency \<mapsto> ()) \<rparr>
                else r)
      in if isInactive \<or> shouldEnqueueInactive then
           r1\<lparr> inactiveQueue :=
                 inactiveQueue r1 @
                 [\<lparr> entry = accountCurrency, lastCheck = Some blockIdentifier, last_check = None \<rparr>] \<rparr>
         else r1)"


section \<open>The reconciliation coordinator\<close>

text \<open>
  The statements of \<^verbatim>\<open>accountReconciliation\<close> after its \<^verbatim>\<open>try\<close>/\<^verbatim>\<open>catch\<close> (lines 246 to
  273), as a function of the variables \<^verbatim>\<open>difference\<close> and \<^verbatim>\<open>cachedBalance\<close> they
  read: the failure callback when \<^verbatim>\<open>difference != "0"\<close>, the exception when that
  callback answers with an error, the bookkeeping, the success callback.
\<close>

definition report ::
  "env \<Rightarrow> RosettaReconciler \<Rightarrow> AccountCurrency \<Rightarrow> jsval \<Rightarrow> BlockIdentifier \<Rightarrow> bool \<Rightarrow>
   jsval \<Rightarrow> jsval \<Rightarrow> (error + jsval) \<times> RosettaReconciler \<times> event list"
where
  "report e r accountCurrency amount blockIdentifier isInactive diff cached =
     (let reconciliationType = (if isInactive then RECONCILIATION_INACTIVE else RECONCILIATION_ACTIVE);
          a = account_identifier accountCurrency;
          c = currency accountCurrency;
          (err, ev) =
            (if js_loose_neq diff (JStr ''0'') then
               (reconciliationFailed (handler e) reconciliationType a c cached amount blockIdentifier,
                [HandlerReconciliationFailed reconciliationType a c cached amount blockIdentifier])
             else (None, []))
      in case err of
           Some x \<Rightarrow> (Inl x, r, ev)
         | None \<Rightarrow>
             (reconciliationSucceeded (handler e) reconciliationType a c amount blockIdentifier,
              inactiveAccountQueue (Hash e) isInactive accountCurrency blockIdentifier r,
              ev @ [HandlerReconciliationSucceeded reconciliationType a c amount blockIdentifier]))"

text \<open>
  \<^verbatim>\<open>accountReconciliation\<close>. The \<^verbatim>\<open>while (true)\<close> loop is a recursion on a bound of
  iterations, \<open>None\<close> when the bound is used up. The result is the value returned or
  the exception thrown, the reconciler, the number of sleeps elapsed and the events.

  In the \<^verbatim>\<open>catch\<close> clause the variable \<^verbatim>\<open>headIndex\<close> is still \<^verbatim>\<open>undefined\<close>: it is
  declared at the top of the loop body and assigned only by the destructuring that
  follows a successful \<^verbatim>\<open>compareBalance\<close>. After the log line the clause evaluates
  \<^verbatim>\<open>partialBlockIdentifier.index\<close>; no variable of that name is in scope in this
  method, which raises a \<^verbatim>\<open>ReferenceError\<close> before \<^verbatim>\<open>this.highWaterMark\<close> is assigned.
\<close>

fun accountReconciliation ::
  "nat \<Rightarrow> env \<Rightarrow> nat \<Rightarrow> RosettaReconciler \<Rightarrow> AccountIdentifier \<Rightarrow> Currency \<Rightarrow> jsval \<Rightarrow>
   BlockIdentifier \<Rightarrow> bool \<Rightarrow> ((error + jsval) \<times> RosettaReconciler \<times> nat \<times> event list) option"
where
  "accountReconciliation 0 e t r accountIdentifier cur amount blockIdentifier isInactive = None"
| "accountReconciliation (Suc n) e t r accountIdentifier cur amount blockIdentifier isInactive =
     (let accountCurrency = \<lparr> account_identifier = accountIdentifier, currency = cur \<rparr>;
          cmp = compareBalance e t accountIdentifier cur amount blockIdentifier
      in case fst cmp of
           Inr result \<Rightarrow>
             (let (x, r', ev) = report e r accountCurrency amount blockIdentifier isInactive
                                  (difference result) (cachedBalance result)
              in Some (x, r', t, snd cmp @ ev))
         | Inl (ReconcilerError ty) \<Rightarrow>
             if ty = RECONCILIATION_ERROR_HEAD_BEHIND_LIVE then
               (let headIndex = JUndefined;
                    diff = js_sub (JNum (index blockIdentifier)) headIndex
                in if js_lt diff (JNum (waitToCheckDiff r)) then
                     (case accountReconciliation n e (Suc t) r accountIdentifier cur amount
                             blockIdentifier isInactive of
                        None \<Rightarrow> None
                      | Some (x, r', t', ev) \<Rightarrow>
                          Some (x, r', t', snd cmp @ [Sleep (waitToCheckDiffSleep r)] @ ev))
                   else
                     Some (Inl (ReferenceError ''partialBlockIdentifier is not defined''), r, t,
                           snd cmp @ [LoggerInfo]))
             else
               (let (x, r', ev) = report e r accountCurrency amount blockIdentifier isInactive
                                    JUndefined JUndefined
                in Some (x, r', t, snd cmp @ ev))
         | Inl x \<Rightarrow> Some (Inl x, r, t, snd cmp))"


section \<open>The two loops\<close>

definition prefix_events ::
  "event list \<Rightarrow> (error \<times> RosettaReconciler \<times> event list) option \<Rightarrow>
   (error \<times> RosettaReconciler \<times> event list) option"
where
  "prefix_events evs out = map_option (\<lambda>(x, r, ev). (x, r, evs @ ev)) out"

text \<open>
  \<^verbatim>\<open>reconcileActiveAccounts\<close>. The loop has no exit but an exception, so the result
  is the exception that ended it, the reconciler and the events; \<open>None\<close> when the
  bound of iterations is used up. \<^verbatim>\<open>shift\<close> on an empty array returns \<^verbatim>\<open>undefined\<close>,
  and reading \<^verbatim>\<open>balanceChange.block\<close> of \<^verbatim>\<open>undefined\<close> raises a \<^verbatim>\<open>TypeError\<close>.
\<close>

fun reconcileActiveAccounts ::
  "nat \<Rightarrow> env \<Rightarrow> nat \<Rightarrow> RosettaReconciler \<Rightarrow> (error \<times> RosettaReconciler \<times> event list) option"
where
  "reconcileActiveAccounts 0 e t r = None"
| "reconcileActiveAccounts (Suc n) e t r =
     (case changeQueue r of
        [] \<Rightarrow> Some (TypeError ''Cannot read properties of undefined (reading block)'', r, [])
      | balanceChange # rest \<Rightarrow>
          (let r1 = r\<lparr> changeQueue := rest \<rparr>
           in if js_lt (JNum (index (block balanceChange))) (highWaterMark r1) then
                reconcileActiveAccounts n e t r1
              else
                (let best = bestBalance e t r1 (change_account_identifier balanceChange)
                              (change_currency balanceChange)
                              (constructPartialBlockIdentifier e (block balanceChange))
                 in case fst best of
                      Inl x \<Rightarrow> Some (x, r1, snd best)
                    | Inr (blk, val) \<Rightarrow>
                        (case accountReconciliation n e t r1 (change_account_identifier balanceChange)
                                (change_currency balanceChange) val blk False of
                           None \<Rightarrow> None
                         | Some (Inl x, r2, t2, ev) \<Rightarrow> Some (x, r2, snd best @ ev)
                         | Some (Inr v, r2, t2, ev) \<Rightarrow>
                             prefix_events (snd best @ ev) (reconcileActiveAccounts n e t2 r2)))))"

text \<open>
  The test of the inactive loop on the front of the queue. \<^verbatim>\<open>last_check == null\<close>
  holds for an absent property; the second disjunct is evaluated only otherwise.
\<close>

definition inactive_front_due :: "RosettaReconciler \<Rightarrow> BlockIdentifier \<Rightarrow> bool" where
  "inactive_front_due r head =
     (length (inactiveQueue r) > 0 \<and>
      (case last_check (hd (inactiveQueue r)) of
         None \<Rightarrow> True
       | Some b \<Rightarrow> index b + requiredDepthInactive r < index head))"

text \<open>
  \<^verbatim>\<open>reconcileInactiveAccounts\<close>. The helper's \<^verbatim>\<open>currentBlock\<close> is called without
  \<^verbatim>\<open>await\<close>; the model takes its answer as the head, the \<^verbatim>\<open>catch\<close> clause as what
  happens when it fails. The destructuring \<^verbatim>\<open>{ block, amount }\<close> of the result of
  \<^verbatim>\<open>bestBalance\<close> leaves \<^verbatim>\<open>amount\<close> \<^verbatim>\<open>undefined\<close>, the result having the properties
  \<^verbatim>\<open>block\<close> and \<^verbatim>\<open>value\<close>.
\<close>

fun reconcileInactiveAccounts ::
  "nat \<Rightarrow> env \<Rightarrow> nat \<Rightarrow> RosettaReconciler \<Rightarrow> (error \<times> RosettaReconciler \<times> event list) option"
where
  "reconcileInactiveAccounts 0 e t r = None"
| "reconcileInactiveAccounts (Suc n) e t r =
     (let h = currentBlock (helper e) t
      in case h of
           Inl x \<Rightarrow>
             prefix_events [HelperCurrentBlock h, LoggerInfo, Sleep RECONCILIATION_INACTIVE_SLEEP_MS]
               (reconcileInactiveAccounts n e (Suc t) r)
         | Inr head \<Rightarrow>
             if inactive_front_due r head then
               (let randomAccount = hd (inactiveQueue r);
                    r1 = r\<lparr> inactiveQueue := tl (inactiveQueue r) \<rparr>;
                    best = bestBalance e t r1 (account_identifier (entry randomAccount))
                             (currency (entry randomAccount))
                             (constructPartialBlockIdentifier e head)
                in case fst best of
                     Inl x \<Rightarrow> Some (x, r1, HelperCurrentBlock h # snd best)
                   | Inr (blk, val) \<Rightarrow>
                       (case accountReconciliation n e t r1 (account_identifier (entry randomAccount))
                               (currency (entry randomAccount)) JUndefined blk True of
                          None \<Rightarrow> None
                        | Some (Inl x, r2, t2, ev) \<Rightarrow> Some (x, r2, HelperCurrentBlock h # snd best @ ev)
                        | Some (Inr v, r2, t2, ev) \<Rightarrow>
                            prefix_events (HelperCurrentBlock h # snd best @ ev)
                              (reconcileInactiveAccounts n e t2 r2)))
             else
               prefix_events [HelperCurrentBlock h, Sleep RECONCILIATION_INACTIVE_SLEEP_MS]
                 (reconcileInactiveAccounts n e (Suc t) r))"


section \<open>Sequences of reconciliations\<close>

text \<open>
  The bookkeeping of a sequence of reconciliations that reach it, each given by its
  \<^verbatim>\<open>isInactive\<close> flag, its account and currency, and its block; and the number of
  entries of a queue whose account and currency have the hash \<open>k\<close>.
\<close>

fun bookkeeping ::
  "(AccountCurrency \<Rightarrow> string) \<Rightarrow> (bool \<times> AccountCurrency \<times> BlockIdentifier) list \<Rightarrow>
   RosettaReconciler \<Rightarrow> RosettaReconciler"
where
  "bookkeeping H [] r = r"
| "bookkeeping H ((isInactive, accountCurrency, blockIdentifier) # rest) r =
     bookkeeping H rest (inactiveAccountQueue H isInactive accountCurrency blockIdentifier r)"

definition queued :: "(AccountCurrency \<Rightarrow> string) \<Rightarrow> string \<Rightarrow> InactiveEntry list \<Rightarrow> nat" where
  "queued H k queue = length (filter (\<lambda>x. H (entry x) = k) queue)"

definition inactive_runs ::
  "(AccountCurrency \<Rightarrow> string) \<Rightarrow> string \<Rightarrow> (bool \<times> AccountCurrency \<times> BlockIdentifier) list \<Rightarrow> nat"
where
  "inactive_runs H k runs = length (filter (\<lambda>(isInactive, ac, b). isInactive \<and> H ac = k) runs)"

definition active_keys ::
  "(AccountCurrency \<Rightarrow> string) \<Rightarrow> (bool \<times> AccountCurrency \<times> BlockIdentifier) list \<Rightarrow> string set"
where
  "active_keys H runs =
     set (map (\<lambda>(isInactive, ac, b). H ac) (filter (\<lambda>(isInactive, ac, b). \<not> isInactive) runs))"

text \<open>The events of a call of \<^verbatim>\<open>accountReconciliation\<close>.\<close>

definition events_of ::
  "((error + jsval) \<times> RosettaReconciler \<times> nat \<times> event list) option \<Rightarrow> event list"
where
  "events_of out = (case out of None \<Rightarrow> [] | Some (x, r, t, ev) \<Rightarrow> ev)"


text \<open>The \<^verbatim>\<open>reconciliationType\<close> that \<^verbatim>\<open>accountReconciliation\<close> passes to the handler.\<close>

definition reconciliation_type :: "bool \<Rightarrow> string" where
  "reconciliation_type isInactive =
     (if isInactive then RECONCILIATION_INACTIVE else RECONCILIATION_ACTIVE)"


section \<open>Example collaborators\<close>

text \<open>
  A helper whose head has a given index, which reports a given existence of every
  block and a given cached balance, last updated at block 90; a handler whose
  failure callback gives a given answer; a fetcher with one balance.
\<close>

definition example_block :: "int \<Rightarrow> BlockIdentifier" where
  "example_block i = \<lparr> index = i, hash = ''b'' \<rparr>"

definition example_helper :: "int \<Rightarrow> bool \<Rightarrow> string \<Rightarrow> helper" where
  "example_helper headIdx exists cached =
     \<lparr> currentBlock = (\<lambda>t. Inr (example_block headIdx)),
       blockExists = (\<lambda>t b. Inr exists),
       accountBalance =
         (\<lambda>t a c h. Inr (\<lparr> amount_value = JStr cached, amount_currency = c \<rparr>, example_block 90)) \<rparr>"

definition example_handler :: "error option \<Rightarrow> handler" where
  "example_handler answer =
     \<lparr> reconciliationFailed = (\<lambda>ty a c b m k. answer),
       reconciliationSucceeded = (\<lambda>ty a c m k. Inr JUndefined) \<rparr>"

definition example_fetcher :: fetcher where
  "example_fetcher =
     \<lparr> AcountBalanceRetry =
         (\<lambda>t n a p. Inr (example_block 100,
                          [\<lparr> amount_value = JStr ''500'', amount_currency = ''DGB'' \<rparr>])) \<rparr>"

definition example_Hash :: "AccountCurrency \<Rightarrow> string" where
  "example_Hash ac = account_identifier ac @ ''|'' @ currency ac"

definition example_partial :: "BlockIdentifier \<Rightarrow> PartialBlockIdentifier" where
  "example_partial b = \<lparr> partial_index = Some (index b), partial_hash = Some (hash b) \<rparr>"

definition example_env :: "helper \<Rightarrow> handler \<Rightarrow> env" where
  "example_env h g =
     \<lparr> network = ''mainnet'', helper = h, handler = g, fetcher = example_fetcher,
       Hash = example_Hash, constructPartialBlockIdentifier = example_partial \<rparr>"

definition example_account :: AccountCurrency where
  "example_account = \<lparr> account_identifier = ''addr'', currency = ''DGB'' \<rparr>"

definition example_reconciler :: RosettaReconciler where
  "example_reconciler = new_RosettaReconciler example_Hash no_args"


section \<open>Basic facts\<close>

lemmas example_defs =
  example_block_def example_helper_def example_handler_def example_fetcher_def
  example_Hash_def example_partial_def example_env_def example_account_def
  example_reconciler_def

lemmas constructor_defs =
  new_RosettaReconciler_def Object_assign_def defaults_def no_args_def or_default_def

lemma sub_500_300: "SubtractValues (JStr ''500'') (JStr ''300'') = Inr (JStr ''200'')"
  by code_simp

lemma sub_500_500: "SubtractValues (JStr ''500'') (JStr ''500'') = Inr (JStr ''0'')"
  by code_simp

lemma undefined_differs_from_zero: "js_loose_neq JUndefined (JStr ''0'')"
  by (simp add: js_loose_neq_def)

lemma difference_with_undefined_is_NaN: "js_sub (JNum i) JUndefined = JNaN"
  by (simp add: js_sub_def)

lemma NaN_below_nothing: "\<not> js_lt JNaN v"
  by (cases v) simp_all

lemma handler_calls_append: "handler_calls (xs @ ys) = handler_calls xs @ handler_calls ys"
  by (simp add: handler_calls_def)

lemma compareBalance_no_handler_calls:
  "handler_calls (snd (compareBalance e t a c amount b)) = []"
  by (simp add: compareBalance_def handler_calls_def Let_def split: sum.splits prod.splits)

lemma compareBalance_difference:
  "fst (compareBalance e t a c amount b) = Inr res \<Longrightarrow>
   SubtractValues (cachedBalance res) amount = Inr (difference res)"
  by (auto simp add: compareBalance_def Let_def split: sum.splits prod.splits if_splits)

text \<open>
  \<^verbatim>\<open>compareBalance\<close> asks \<^verbatim>\<open>blockExists\<close> exactly when the head is known and the claimed
  block is not ahead of it.
\<close>

lemma compareBalance_asks_blockExists:
  "HelperBlockExists b ans \<in> set (snd (compareBalance e t a c amount b)) =
     (\<exists>head. currentBlock (helper e) t = Inr head \<and> index b \<le> index head \<and>
             blockExists (helper e) t b = ans)"
  by (auto simp add: compareBalance_def Let_def split: sum.splits prod.splits if_splits)

lemma compareBalance_head_behind_live:
  "currentBlock (helper e) t = Inr head \<Longrightarrow> index head < index b \<Longrightarrow>
   compareBalance e t a c amount b =
     (Inl (ReconcilerError RECONCILIATION_ERROR_HEAD_BEHIND_LIVE), [HelperCurrentBlock (Inr head)])"
  by (simp add: compareBalance_def)

lemma bestBalance_fails:
  "\<exists>x. bestBalance e t r a c p =
     (Inl x, [FetcherAcountBalanceRetry (network e) a
                (if lookupBalanceByBlock r then None else Some p)])"
  by (simp add: bestBalance_def getCurrencyBalance_def Let_def split: sum.splits prod.splits)

lemma bestBalance_never_returns: "\<exists>x. fst (bestBalance e t r a c p) = Inl x"
  using bestBalance_fails [of e t r a c p] by auto

text \<open>
  Since \<^verbatim>\<open>bestBalance\<close> never returns, the active loop ends with an exception after
  at most one iteration per queued change and one more.
\<close>

lemma reconcileActiveAccounts_faults:
  "changeQueue r = q \<Longrightarrow>
   \<exists>x r' ev. reconcileActiveAccounts (Suc (length q)) e t r = Some (x, r', ev)"
proof (induction q arbitrary: r)
  case Nil
  then show ?case by simp
next
  case (Cons balanceChange rest)
  let ?r1 = "r\<lparr> changeQueue := rest \<rparr>"
  have ih: "\<exists>x r' ev. reconcileActiveAccounts (Suc (length rest)) e t ?r1 = Some (x, r', ev)"
    by (rule Cons.IH) simp
  obtain x where bb:
    "fst (bestBalance e t ?r1 (change_account_identifier balanceChange)
            (change_currency balanceChange)
            (constructPartialBlockIdentifier e (block balanceChange))) = Inl x"
    using bestBalance_never_returns by blast
  show ?case
  proof (cases "js_lt (JNum (index (block balanceChange))) (highWaterMark ?r1)")
    case True
    with ih Cons.prems show ?thesis
      by (subst reconcileActiveAccounts.simps(2)) (simp del: reconcileActiveAccounts.simps)
  next
    case False
    with bb Cons.prems show ?thesis
      by (subst reconcileActiveAccounts.simps(2))
         (simp del: reconcileActiveAccounts.simps add: Let_def)
  qed
qed

text \<open>The part of \<^verbatim>\<open>accountReconciliation\<close> after the comparison, case by case.\<close>

lemma report_mismatch:
  assumes "js_loose_neq d (JStr ''0'')"
  shows "report e r ac amount b isInactive d cb =
     (case reconciliationFailed (handler e) (reconciliation_type isInactive)
             (account_identifier ac) (currency ac) cb amount b of
        Some y \<Rightarrow>
          (Inl y, r,
           [HandlerReconciliationFailed (reconciliation_type isInactive)
              (account_identifier ac) (currency ac) cb amount b])
      | None \<Rightarrow>
          (reconciliationSucceeded (handler e) (reconciliation_type isInactive)
             (account_identifier ac) (currency ac) amount b,
           inactiveAccountQueue (Hash e) isInactive ac b r,
           [HandlerReconciliationFailed (reconciliation_type isInactive)
              (account_identifier ac) (currency ac) cb amount b,
            HandlerReconciliationSucceeded (reconciliation_type isInactive)
              (account_identifier ac) (currency ac) amount b]))"
  using assms by (simp add: report_def reconciliation_type_def Let_def split: option.splits)

lemma report_match:
  assumes "\<not> js_loose_neq d (JStr ''0'')"
  shows "report e r ac amount b isInactive d cb =
     (reconciliationSucceeded (handler e) (reconciliation_type isInactive)
        (account_identifier ac) (currency ac) amount b,
      inactiveAccountQueue (Hash e) isInactive ac b r,
      [HandlerReconciliationSucceeded (reconciliation_type isInactive)
         (account_identifier ac) (currency ac) amount b])"
  using assms by (simp add: report_def reconciliation_type_def Let_def)

text \<open>No path of \<^verbatim>\<open>accountReconciliation\<close> assigns \<^verbatim>\<open>highWaterMark\<close>.\<close>

lemma report_highWaterMark:
  "report e r ac amount b i d cb = (x, r', ev) \<Longrightarrow> highWaterMark r' = highWaterMark r"
  by (auto simp add: report_def inactiveAccountQueue_def Let_def
      split: if_splits option.splits prod.splits)

lemma accountReconciliation_highWaterMark:
  "accountReconciliation n e t r a c amount b i = Some (x, r', t', ev) \<Longrightarrow>
   highWaterMark r' = highWaterMark r"
proof (induction n arbitrary: t x r' t' ev)
  case 0
  then show ?case by simp
next
  case (Suc n)
  then show ?case
    by (auto simp add: Let_def
        split: sum.splits error.splits if_splits option.splits prod.splits
        dest: report_highWaterMark)
qed

text \<open>
  The \<^verbatim>\<open>continue\<close> of \<^verbatim>\<open>accountReconciliation\<close> is never taken: one pass of the loop
  decides every call.
\<close>

lemma accountReconciliation_one_pass:
  "accountReconciliation (Suc n) e t r a c amount b i =
   accountReconciliation (Suc 0) e t r a c amount b i"
  by (simp add: difference_with_undefined_is_NaN NaN_below_nothing Let_def
      split: sum.splits error.splits prod.splits)

lemma accountReconciliation_returns:
  "\<exists>x r' ev. accountReconciliation (Suc n) e t r a c amount b i = Some (x, r', t, ev)"
  by (simp add: difference_with_undefined_is_NaN NaN_below_nothing Let_def
      split: sum.splits error.splits prod.splits)

text \<open>The bookkeeping and the constructor, entry by entry.\<close>

lemma queued_snoc: "queued H k (q @ [x]) = queued H k q + (if H (entry x) = k then 1 else 0)"
  by (simp add: queued_def)

lemma inactive_runs_Cons:
  "inactive_runs H k ((i, ac, b) # runs) =
     (if i \<and> H ac = k then 1 else 0) + inactive_runs H k runs"
  by (simp add: inactive_runs_def)

lemma active_keys_Nil: "active_keys H [] = {}"
  by (simp add: active_keys_def)

lemma active_keys_Cons:
  "active_keys H ((i, ac, b) # runs) =
     (if i then active_keys H runs else insert (H ac) (active_keys H runs))"
  by (simp add: active_keys_def)

lemma bookkeeping_count:
  "queued H k (inactiveQueue (bookkeeping H runs r)) =
     queued H k (inactiveQueue r) + inactive_runs H k runs +
     (if seenAccounts r k = None \<and> k \<in> active_keys H runs then 1 else 0)"
proof (induction runs arbitrary: r)
  case Nil
  show ?case by (simp add: inactive_runs_def active_keys_def)
next
  case (Cons run runs)
  obtain i ac b where run: "run = (i, ac, b)" by (cases run) auto
  show ?case
    unfolding run bookkeeping.simps Cons.IH inactive_runs_Cons active_keys_Cons
    by (auto simp add: inactiveAccountQueue_def ContainsAccountCurrency_def queued_snoc Let_def)
qed

lemma handleSeenAccounts_result:
  "handleSeenAccounts H ss (q, seen) =
     (q @ map (\<lambda>s. \<lparr> entry = s, lastCheck = None, last_check = None \<rparr>) ss,
      (\<lambda>k. if k \<in> H ` set ss then Some () else seen k))"
proof (induction ss arbitrary: q seen)
  case Nil
  show ?case by simp
next
  case (Cons s ss)
  show ?case by (simp add: Cons.IH) (rule ext, auto)
qed

lemma new_seenAccounts:
  "seenAccounts (new_RosettaReconciler H a) k =
     (if k \<in> H ` set (or_default (arg_withSeenAccounts a) []) then Some () else None)"
  by (simp add: new_RosettaReconciler_def Object_assign_def defaults_def handleSeenAccounts_result)

lemma new_inactiveQueue:
  "inactiveQueue (new_RosettaReconciler H a) =
     map (\<lambda>s. \<lparr> entry = s, lastCheck = None, last_check = None \<rparr>)
       (or_default (arg_withSeenAccounts a) [])"
  by (simp add: new_RosettaReconciler_def Object_assign_def defaults_def handleSeenAccounts_result)

text \<open>
  Neither writer of the inactive queue sets the property \<^verbatim>\<open>last_check\<close> that the
  inactive loop reads.
\<close>

lemma new_last_check:
  "x \<in> set (inactiveQueue (new_RosettaReconciler H a)) \<Longrightarrow> last_check x = None"
  by (auto simp add: new_inactiveQueue)

lemma inactiveAccountQueue_last_check:
  "(\<And>x. x \<in> set (inactiveQueue r) \<Longrightarrow> last_check x = None) \<Longrightarrow>
   x \<in> set (inactiveQueue (inactiveAccountQueue H i ac b r)) \<Longrightarrow> last_check x = None"
  by (auto simp add: inactiveAccountQueue_def Let_def split: if_splits)

lemma example_compare_300:
  "compareBalance (example_env (example_helper 100 True ''500'') g) 0 ''addr'' ''DGB''
     (JStr ''300'') (example_block 100) =
   (Inr \<lparr> difference = JStr ''200'', cachedBalance = JStr ''500'', headIndex = 100 \<rparr>,
    [HelperCurrentBlock (Inr (example_block 100)),
     HelperBlockExists (example_block 100) (Inr True),
     HelperAccountBalance ''addr'' ''DGB'' (example_block 100)])"
  by (simp add: compareBalance_def example_defs sub_500_300)

lemma example_compare_500:
  "compareBalance (example_env (example_helper 100 True ''500'') g) 0 ''addr'' ''DGB''
     (JStr ''500'') (example_block 100) =
   (Inr \<lparr> difference = JStr ''0'', cachedBalance = JStr ''500'', headIndex = 100 \<rparr>,
    [HelperCurrentBlock (Inr (example_block 100)),
     HelperBlockExists (example_block 100) (Inr True),
     HelperAccountBalance ''addr'' ''DGB'' (example_block 100)])"
  by (simp add: compareBalance_def example_defs sub_500_500)

lemma example_compare_gone:
  "compareBalance (example_env (example_helper 100 False ''500'') g) 0 ''addr'' ''DGB''
     (JStr ''500'') (example_block 100) =
   (Inl (ReconcilerError RECONCILIATION_ERROR_BLOCK_GONE),
    [HelperCurrentBlock (Inr (example_block 100)),
     HelperBlockExists (example_block 100) (Inr False)])"
  by (simp add: compareBalance_def example_defs)


section \<open>Balance retrieval: the block passed to the fetcher\<close>

text \<open>
  C1. The claim: with \<^verbatim>\<open>lookupBalanceByBlock\<close> set, \<^verbatim>\<open>bestBalance\<close> passes the given
  partial block identifier to the fetcher, and without it passes \<^verbatim>\<open>null\<close>. The method
  does the reverse: it passes \<^verbatim>\<open>null\<close> when the flag is set and the given identifier
  when it is not. In both cases the fetcher is called exactly once.
\<close>

theorem bestBalance_fetcher_argument:
  "snd (bestBalance e t r a c p) =
     [FetcherAcountBalanceRetry (network e) a
        (if lookupBalanceByBlock r then None else Some p)]"
  by (simp add: bestBalance_def getCurrencyBalance_def Let_def split: sum.splits prod.splits)

theorem bestBalance_fetcher_argument_witness:
  "lookupBalanceByBlock example_reconciler \<and>
   snd (bestBalance (example_env (example_helper 100 True ''500'') (example_handler None)) 0
          example_reconciler ''addr'' ''DGB'' (example_partial (example_block 7))) =
     [FetcherAcountBalanceRetry ''mainnet'' ''addr'' None]"
  using bestBalance_fetcher_argument
    [of "example_env (example_helper 100 True ''500'') (example_handler None)" 0
        example_reconciler "''addr''" "''DGB''" "example_partial (example_block 7)"]
  by (simp add: example_reconciler_def example_env_def constructor_defs)


section \<open>The constructor and the high-water mark\<close>

text \<open>
  C4. The claim: a freshly constructed reconciler has \<^verbatim>\<open>highWaterMark\<close> equal to -1
  unless the configuration overrides it. The constructor stores the value of
  \<^verbatim>\<open>lookupBalanceByBlock\<close> instead, whatever the configuration says about
  \<^verbatim>\<open>highWaterMark\<close>: with no option given the field holds \<^verbatim>\<open>true\<close>, which the
  comparison \<^verbatim>\<open>index < this.highWaterMark\<close> reads as 1.
\<close>

theorem constructor_highWaterMark:
  "highWaterMark (new_RosettaReconciler H a) =
     JBool (or_default (arg_lookupBalanceByBlock a) True) \<and>
   highWaterMark (new_RosettaReconciler H no_args) = JBool True \<and>
   highWaterMark (new_RosettaReconciler H no_args) \<noteq> JNum (- 1)"
  by (simp add: constructor_defs split: prod.splits)

theorem constructor_highWaterMark_witness:
  "highWaterMark example_reconciler = JBool True \<and>
   js_lt (JNum 0) (highWaterMark example_reconciler)"
  using constructor_highWaterMark [of example_Hash no_args]
  by (simp add: example_reconciler_def no_args_def or_default_def)


section \<open>The comparator: a block that is gone\<close>

text \<open>
  C7, as amended. When the helper gives a head, the claimed block is not ahead of
  it, and \<^verbatim>\<open>blockExists\<close> reports false for the claimed block, \<^verbatim>\<open>compareBalance\<close>
  fails with \<^verbatim>\<open>BLOCK_GONE\<close>, whatever the balances are: the helper is asked for the
  head and for the existence of the block, and the cached balance is not even
  fetched.
\<close>

theorem compareBalance_block_gone_after_head_check:
  assumes "currentBlock (helper e) t = Inr head"
      and "index b \<le> index head"
      and "blockExists (helper e) t b = Inr False"
  shows "fst (compareBalance e t a c amount b) =
           Inl (ReconcilerError RECONCILIATION_ERROR_BLOCK_GONE) \<and>
         snd (compareBalance e t a c amount b) =
           [HelperCurrentBlock (Inr head), HelperBlockExists b (Inr False)]"
  using assms by (simp add: compareBalance_def)

theorem compareBalance_block_gone_after_head_check_witness:
  "currentBlock (helper (example_env (example_helper 100 False ''500'') (example_handler None))) 0 =
     Inr (example_block 100) \<and>
   index (example_block 100) \<le> index (example_block 100) \<and>
   blockExists (helper (example_env (example_helper 100 False ''500'') (example_handler None))) 0
     (example_block 100) = Inr False \<and>
   fst (compareBalance (example_env (example_helper 100 False ''500'') (example_handler None))
          0 ''addr'' ''DGB'' (JStr ''500'') (example_block 100)) =
     Inl (ReconcilerError RECONCILIATION_ERROR_BLOCK_GONE) \<and>
   snd (compareBalance (example_env (example_helper 100 False ''500'') (example_handler None))
          0 ''addr'' ''DGB'' (JStr ''500'') (example_block 100)) =
     [HelperCurrentBlock (Inr (example_block 100)),
      HelperBlockExists (example_block 100) (Inr False)]"
proof -
  let ?e = "example_env (example_helper 100 False ''500'') (example_handler None)"
  have h1: "currentBlock (helper ?e) 0 = Inr (example_block 100)"
    by (simp add: example_env_def example_helper_def)
  have h2: "index (example_block 100) \<le> index (example_block 100)"
    by simp
  have h3: "blockExists (helper ?e) 0 (example_block 100) = Inr False"
    by (simp add: example_env_def example_helper_def)
  show ?thesis
    using h1 h3
      compareBalance_block_gone_after_head_check
        [OF h1 h2 h3, where a = "''addr''" and c = "''DGB''" and amount = "JStr ''500''"]
    by simp
qed

text \<open>
  The claim as first stated holds of every input on which \<^verbatim>\<open>blockExists\<close> reports
  false. With the head at block 100, the claimed block at 101, a helper that reports
  false for every block, and equal cached and claimed balances, \<^verbatim>\<open>compareBalance\<close>
  fails with \<^verbatim>\<open>ERROR_HEAD_BEHIND_LIVE\<close>: the head is compared first, and the helper
  is not asked about the block.
\<close>

theorem block_gone_masked_by_head_check:
  "blockExists (helper (example_env (example_helper 100 False ''500'') (example_handler None))) 0
     (example_block 101) = Inr False \<and>
   compareBalance (example_env (example_helper 100 False ''500'') (example_handler None))
     0 ''addr'' ''DGB'' (JStr ''500'') (example_block 101) =
     (Inl (ReconcilerError RECONCILIATION_ERROR_HEAD_BEHIND_LIVE),
      [HelperCurrentBlock (Inr (example_block 100))]) \<and>
   fst (compareBalance (example_env (example_helper 100 False ''500'') (example_handler None))
          0 ''addr'' ''DGB'' (JStr ''500'') (example_block 101)) \<noteq>
     Inl (ReconcilerError RECONCILIATION_ERROR_BLOCK_GONE)"
  by (simp add: compareBalance_def example_env_def example_helper_def example_block_def
      RECONCILIATION_ERROR_HEAD_BEHIND_LIVE_def RECONCILIATION_ERROR_BLOCK_GONE_def)


section \<open>The coordinator: a head behind the claimed block\<close>

text \<open>
  C2. The claim: on \<^verbatim>\<open>ERROR_HEAD_BEHIND_LIVE\<close> the coordinator sleeps and retries
  while the lag is below \<^verbatim>\<open>waitToCheckDiff\<close>, and otherwise sets \<^verbatim>\<open>highWaterMark\<close> to the
  claimed index and skips. The method does neither. Whatever the lag and the
  threshold, it does not sleep (the lag is computed from an \<^verbatim>\<open>undefined\<close>
  \<^verbatim>\<open>headIndex\<close> and is \<^verbatim>\<open>NaN\<close>), it logs, and it ends with a \<^verbatim>\<open>ReferenceError\<close>,
  leaving \<^verbatim>\<open>highWaterMark\<close> and the rest of the reconciler as they were; no callback is
  invoked.
\<close>

theorem head_behind_live_raises:
  assumes "currentBlock (helper e) t = Inr head" and "index head < index b"
  shows "accountReconciliation (Suc n) e t r a c amount b isInactive =
     Some (Inl (ReferenceError ''partialBlockIdentifier is not defined''), r, t,
           [HelperCurrentBlock (Inr head), LoggerInfo])"
  using assms
  by (simp add: compareBalance_head_behind_live difference_with_undefined_is_NaN)

theorem head_behind_live_raises_witness:
  "currentBlock (helper (example_env (example_helper 100 True ''500'') (example_handler None))) 0 =
     Inr (example_block 100) \<and>
   index (example_block 100) < index (example_block 105) \<and>
   index (example_block 105) - index (example_block 100) < waitToCheckDiff example_reconciler \<and>
   accountReconciliation 1 (example_env (example_helper 100 True ''500'') (example_handler None)) 0
       example_reconciler ''addr'' ''DGB'' (JStr ''500'') (example_block 105) False =
     Some (Inl (ReferenceError ''partialBlockIdentifier is not defined''), example_reconciler, 0,
           [HelperCurrentBlock (Inr (example_block 100)), LoggerInfo])"
proof -
  have h1: "currentBlock (helper (example_env (example_helper 100 True ''500'') (example_handler None))) 0 =
     Inr (example_block 100)"
    by (simp add: example_env_def example_helper_def)
  have h2: "index (example_block 100) < index (example_block 105)"
    by (simp add: example_block_def)
  have h3: "index (example_block 105) - index (example_block 100) < waitToCheckDiff example_reconciler"
    by (simp add: example_block_def example_reconciler_def constructor_defs)
  show ?thesis
    using h1 h2 h3
      head_behind_live_raises [OF h1 h2, of 0 example_reconciler "''addr''" "''DGB''"
        "JStr ''500''" False]
    by simp
qed



section \<open>The coordinator: callbacks after a comparison\<close>

text \<open>
  C3, as amended. When the comparison completes with a difference that is not
  \<^verbatim>\<open>"0"\<close>, \<^verbatim>\<open>accountReconciliation\<close> returns after one pass, and it invokes the failure
  callback exactly once, with the reconciliation type, the account, the currency,
  the cached balance, the claimed amount and the block. If the callback answers with
  an error, that error is thrown, the reconciler is unchanged and the success callback
  is not invoked. If it answers with none, the bookkeeping runs and the success
  callback is invoked once, its result being the result of the call.
\<close>

theorem mismatch_callbacks:
  assumes "fst (compareBalance e t a c amount b) = Inr res"
      and "js_loose_neq (difference res) (JStr ''0'')"
  shows "\<exists>x r' ev.
     accountReconciliation (Suc n) e t r a c amount b isInactive = Some (x, r', t, ev) \<and>
     handler_calls ev =
       HandlerReconciliationFailed (reconciliation_type isInactive) a c (cachedBalance res) amount b #
       (case reconciliationFailed (handler e) (reconciliation_type isInactive) a c
               (cachedBalance res) amount b of
          Some y \<Rightarrow> []
        | None \<Rightarrow> [HandlerReconciliationSucceeded (reconciliation_type isInactive) a c amount b]) \<and>
     (case reconciliationFailed (handler e) (reconciliation_type isInactive) a c
             (cachedBalance res) amount b of
        Some y \<Rightarrow> x = Inl y \<and> r' = r
      | None \<Rightarrow>
          x = reconciliationSucceeded (handler e) (reconciliation_type isInactive) a c amount b \<and>
          r' = inactiveAccountQueue (Hash e) isInactive
                 \<lparr> account_identifier = a, currency = c \<rparr> b r)"
  using assms
  by (simp add: report_mismatch handler_calls_append compareBalance_no_handler_calls Let_def
      split: option.splits)
     (simp add: handler_calls_def)

theorem mismatch_callbacks_witness:
  "fst (compareBalance (example_env (example_helper 100 True ''500'')
                          (example_handler (Some (OtherError ''halt''))))
          0 ''addr'' ''DGB'' (JStr ''300'') (example_block 100)) =
     Inr \<lparr> difference = JStr ''200'', cachedBalance = JStr ''500'', headIndex = 100 \<rparr> \<and>
   js_loose_neq (JStr ''200'') (JStr ''0'') \<and>
   (\<exists>ev. accountReconciliation 1 (example_env (example_helper 100 True ''500'')
                                       (example_handler (Some (OtherError ''halt''))))
            0 example_reconciler ''addr'' ''DGB'' (JStr ''300'') (example_block 100) False =
          Some (Inl (OtherError ''halt''), example_reconciler, 0, ev) \<and>
        handler_calls ev =
          [HandlerReconciliationFailed ''ACTIVE'' ''addr'' ''DGB'' (JStr ''500'') (JStr ''300'')
             (example_block 100)])"
proof -
  let ?e = "example_env (example_helper 100 True ''500'') (example_handler (Some (OtherError ''halt'')))"
  let ?res = "\<lparr> difference = JStr ''200'', cachedBalance = JStr ''500'', headIndex = 100 \<rparr>"
  have h1: "fst (compareBalance ?e 0 ''addr'' ''DGB'' (JStr ''300'') (example_block 100)) = Inr ?res"
    by (simp add: example_compare_300)
  have h2: "js_loose_neq (difference ?res) (JStr ''0'')"
    by (simp add: js_loose_neq_def)
  have ans: "reconciliationFailed (handler ?e) ''ACTIVE'' ''addr'' ''DGB''
               (JStr ''500'') (JStr ''300'') (example_block 100) = Some (OtherError ''halt'')"
    by (simp add: example_env_def example_handler_def)
  have ty: "reconciliation_type False = ''ACTIVE''"
    by (simp add: reconciliation_type_def RECONCILIATION_ACTIVE_def)
  from mismatch_callbacks [OF h1 h2, of 0 example_reconciler False]
  have "\<exists>ev. accountReconciliation 1 ?e 0 example_reconciler ''addr'' ''DGB'' (JStr ''300'')
               (example_block 100) False =
             Some (Inl (OtherError ''halt''), example_reconciler, 0, ev) \<and>
           handler_calls ev =
             [HandlerReconciliationFailed ''ACTIVE'' ''addr'' ''DGB'' (JStr ''500'') (JStr ''300'')
                (example_block 100)]"
    using ans ty by (auto simp del: accountReconciliation.simps)
  with h1 h2 show ?thesis by (simp del: accountReconciliation.simps)
qed

text \<open>
  The claim as first stated says that the success callback is not invoked after a
  mismatch. With cached balance \<^verbatim>\<open>"500"\<close>, claimed amount \<^verbatim>\<open>"300"\<close> and a failure
  callback that answers with no error, the difference is \<^verbatim>\<open>"200"\<close> and the handler
  receives the failure call and then the success call.
\<close>

theorem mismatch_success_also_called:
  "fst (compareBalance (example_env (example_helper 100 True ''500'') (example_handler None))
          0 ''addr'' ''DGB'' (JStr ''300'') (example_block 100)) =
     Inr \<lparr> difference = JStr ''200'', cachedBalance = JStr ''500'', headIndex = 100 \<rparr> \<and>
   handler_calls
     (events_of (accountReconciliation 1
        (example_env (example_helper 100 True ''500'') (example_handler None)) 0
        example_reconciler ''addr'' ''DGB'' (JStr ''300'') (example_block 100) False)) =
     [HandlerReconciliationFailed ''ACTIVE'' ''addr'' ''DGB'' (JStr ''500'') (JStr ''300'')
        (example_block 100),
      HandlerReconciliationSucceeded ''ACTIVE'' ''addr'' ''DGB'' (JStr ''300'') (example_block 100)]"
  by (simp add: example_compare_300 events_of_def)
     (simp add: report_def Let_def js_loose_neq_def example_env_def example_handler_def
      handler_calls_def RECONCILIATION_ACTIVE_def)

text \<open>
  C8. When the comparison completes with head index 100, cached balance \<^verbatim>\<open>"500"\<close>,
  claimed amount \<^verbatim>\<open>"500"\<close> and claimed block index 100, the difference is \<^verbatim>\<open>"0"\<close>, the
  success callback is invoked exactly once, with the reconciliation type, the account,
  the currency, the amount and the block, and the failure callback is not invoked.
\<close>

theorem matching_balances_succeed:
  assumes "fst (compareBalance e t a c (JStr ''500'') b) = Inr res"
      and "cachedBalance res = JStr ''500''"
      and "headIndex res = 100"
      and "index b = 100"
  shows "difference res = JStr ''0'' \<and>
     handler_calls (events_of (accountReconciliation (Suc n) e t r a c (JStr ''500'') b isInactive)) =
       [HandlerReconciliationSucceeded (reconciliation_type isInactive) a c (JStr ''500'') b]"
proof -
  have d: "difference res = JStr ''0''"
    using compareBalance_difference [OF assms(1)] assms(2) by (simp add: sub_500_500)
  then have "\<not> js_loose_neq (difference res) (JStr ''0'')"
    by (simp add: js_loose_neq_def)
  then show ?thesis
    using d assms(1)
    by (simp add: report_match events_of_def handler_calls_append compareBalance_no_handler_calls)
       (simp add: handler_calls_def)
qed

theorem matching_balances_succeed_witness:
  "fst (compareBalance (example_env (example_helper 100 True ''500'') (example_handler None))
          0 ''addr'' ''DGB'' (JStr ''500'') (example_block 100)) =
     Inr \<lparr> difference = JStr ''0'', cachedBalance = JStr ''500'', headIndex = 100 \<rparr> \<and>
   index (example_block 100) = 100 \<and>
   handler_calls
     (events_of (accountReconciliation 1
        (example_env (example_helper 100 True ''500'') (example_handler None)) 0
        example_reconciler ''addr'' ''DGB'' (JStr ''500'') (example_block 100) False)) =
     [HandlerReconciliationSucceeded ''ACTIVE'' ''addr'' ''DGB'' (JStr ''500'') (example_block 100)]"
proof -
  let ?e = "example_env (example_helper 100 True ''500'') (example_handler None)"
  let ?res = "\<lparr> difference = JStr ''0'', cachedBalance = JStr ''500'', headIndex = 100 \<rparr>"
  have h1: "fst (compareBalance ?e 0 ''addr'' ''DGB'' (JStr ''500'') (example_block 100)) = Inr ?res"
    by (simp add: example_compare_500)
  have h2: "cachedBalance ?res = JStr ''500''" by simp
  have h3: "headIndex ?res = 100" by simp
  have h4: "index (example_block 100) = 100" by (simp add: example_block_def)
  have ty: "reconciliation_type False = ''ACTIVE''"
    by (simp add: reconciliation_type_def RECONCILIATION_ACTIVE_def)
  show ?thesis
    using h1 h4 ty matching_balances_succeed [OF h1 h2 h3 h4, of 0 example_reconciler False]
    by (simp del: accountReconciliation.simps)
qed

text \<open>
  C10. When the comparator fails with \<^verbatim>\<open>ACCOUNT_UPDATED\<close> or \<^verbatim>\<open>BLOCK_GONE\<close>,
  \<^verbatim>\<open>accountReconciliation\<close> still invokes the failure callback, since the \<^verbatim>\<open>undefined\<close>
  difference is not loosely equal to \<^verbatim>\<open>"0"\<close>, and passes it an \<^verbatim>\<open>undefined\<close> cached
  balance. If the callback answers with no error, the bookkeeping runs and the
  success callback is invoked as well; if it answers with an error, that error is
  thrown.
\<close>

theorem skipped_attempt_callbacks:
  assumes "fst (compareBalance e t a c amount b) = Inl (ReconcilerError ty)"
      and "ty = RECONCILIATION_ERROR_ACCOUNT_UPDATED \<or> ty = RECONCILIATION_ERROR_BLOCK_GONE"
  shows "\<exists>x r' ev.
     accountReconciliation (Suc n) e t r a c amount b isInactive = Some (x, r', t, ev) \<and>
     handler_calls ev =
       HandlerReconciliationFailed (reconciliation_type isInactive) a c JUndefined amount b #
       (case reconciliationFailed (handler e) (reconciliation_type isInactive) a c
               JUndefined amount b of
          Some y \<Rightarrow> []
        | None \<Rightarrow> [HandlerReconciliationSucceeded (reconciliation_type isInactive) a c amount b]) \<and>
     (case reconciliationFailed (handler e) (reconciliation_type isInactive) a c
             JUndefined amount b of
        Some y \<Rightarrow> x = Inl y \<and> r' = r
      | None \<Rightarrow>
          x = reconciliationSucceeded (handler e) (reconciliation_type isInactive) a c amount b \<and>
          r' = inactiveAccountQueue (Hash e) isInactive
                 \<lparr> account_identifier = a, currency = c \<rparr> b r)"
proof -
  have ne: "ty \<noteq> RECONCILIATION_ERROR_HEAD_BEHIND_LIVE"
    using assms(2)
    by (auto simp add: RECONCILIATION_ERROR_HEAD_BEHIND_LIVE_def
        RECONCILIATION_ERROR_ACCOUNT_UPDATED_def RECONCILIATION_ERROR_BLOCK_GONE_def)
  show ?thesis
    using assms(1) ne
    by (simp add: report_mismatch [OF undefined_differs_from_zero] handler_calls_append
        compareBalance_no_handler_calls Let_def split: option.splits)
       (simp add: handler_calls_def)
qed

theorem skipped_attempt_callbacks_witness:
  "fst (compareBalance (example_env (example_helper 100 False ''500'') (example_handler None))
          0 ''addr'' ''DGB'' (JStr ''500'') (example_block 100)) =
     Inl (ReconcilerError RECONCILIATION_ERROR_BLOCK_GONE) \<and>
   (\<exists>x r' ev. accountReconciliation 1
                 (example_env (example_helper 100 False ''500'') (example_handler None)) 0
                 example_reconciler ''addr'' ''DGB'' (JStr ''500'') (example_block 100) False =
               Some (x, r', 0, ev) \<and>
             handler_calls ev =
               [HandlerReconciliationFailed ''ACTIVE'' ''addr'' ''DGB'' JUndefined (JStr ''500'')
                  (example_block 100),
                HandlerReconciliationSucceeded ''ACTIVE'' ''addr'' ''DGB'' (JStr ''500'')
                  (example_block 100)] \<and>
             x = Inr JUndefined \<and>
             inactiveQueue r' =
               [\<lparr> entry = example_account, lastCheck = Some (example_block 100),
                   last_check = None \<rparr>])"
proof -
  let ?e = "example_env (example_helper 100 False ''500'') (example_handler None)"
  have h1: "fst (compareBalance ?e 0 ''addr'' ''DGB'' (JStr ''500'') (example_block 100)) =
     Inl (ReconcilerError RECONCILIATION_ERROR_BLOCK_GONE)"
    by (simp add: example_compare_gone)
  have h2: "RECONCILIATION_ERROR_BLOCK_GONE = RECONCILIATION_ERROR_ACCOUNT_UPDATED \<or>
            RECONCILIATION_ERROR_BLOCK_GONE = RECONCILIATION_ERROR_BLOCK_GONE"
    by simp
  have ans: "reconciliationFailed (handler ?e) ''ACTIVE'' ''addr'' ''DGB''
               JUndefined (JStr ''500'') (example_block 100) = None"
    by (simp add: example_env_def example_handler_def)
  have ok: "reconciliationSucceeded (handler ?e) ''ACTIVE'' ''addr'' ''DGB''
               (JStr ''500'') (example_block 100) = Inr JUndefined"
    by (simp add: example_env_def example_handler_def)
  have ty: "reconciliation_type False = ''ACTIVE''"
    by (simp add: reconciliation_type_def RECONCILIATION_ACTIVE_def)
  have q: "inactiveQueue (inactiveAccountQueue (Hash ?e) False
              \<lparr> account_identifier = ''addr'', currency = ''DGB'' \<rparr> (example_block 100)
              example_reconciler) =
           [\<lparr> entry = example_account, lastCheck = Some (example_block 100), last_check = None \<rparr>]"
    by (simp add: inactiveAccountQueue_def ContainsAccountCurrency_def example_reconciler_def
        new_seenAccounts new_inactiveQueue no_args_def or_default_def example_account_def)
  from skipped_attempt_callbacks [OF h1 h2, of 0 example_reconciler False]
  have "\<exists>x r' ev. accountReconciliation 1 ?e 0 example_reconciler ''addr'' ''DGB'' (JStr ''500'')
                     (example_block 100) False = Some (x, r', 0, ev) \<and>
             handler_calls ev =
               [HandlerReconciliationFailed ''ACTIVE'' ''addr'' ''DGB'' JUndefined (JStr ''500'')
                  (example_block 100),
                HandlerReconciliationSucceeded ''ACTIVE'' ''addr'' ''DGB'' (JStr ''500'')
                  (example_block 100)] \<and>
             x = Inr JUndefined \<and>
             inactiveQueue r' =
               [\<lparr> entry = example_account, lastCheck = Some (example_block 100),
                   last_check = None \<rparr>]"
    using ans ok ty q by (auto simp del: accountReconciliation.simps)
  with h1 show ?thesis by (simp del: accountReconciliation.simps)
qed



section \<open>The active loop on an empty queue\<close>

text \<open>
  C9. The claim: with an empty change queue, a step of the active loop waits until
  the queue is non-empty and never faults. The loop does not wait: on an empty queue
  its first iteration ends at once with a \<^verbatim>\<open>TypeError\<close> (\<^verbatim>\<open>shift\<close> returns
  \<^verbatim>\<open>undefined\<close>, whose property \<^verbatim>\<open>block\<close> is read), without a sleep or any other event.
  The inactive loop, by contrast, tests the length of its queue and sleeps.
\<close>

theorem active_loop_faults_on_empty_queue:
  "changeQueue r = [] \<Longrightarrow>
   reconcileActiveAccounts (Suc n) e t r =
     Some (TypeError ''Cannot read properties of undefined (reading block)'', r, [])"
  by simp

theorem active_loop_faults_on_empty_queue_witness:
  "changeQueue example_reconciler = [] \<and>
   reconcileActiveAccounts 1 (example_env (example_helper 100 True ''500'') (example_handler None)) 0
       example_reconciler =
     Some (TypeError ''Cannot read properties of undefined (reading block)'', example_reconciler, [])"
proof -
  have h: "changeQueue example_reconciler = []"
    by (simp add: example_reconciler_def new_RosettaReconciler_def Let_def split: prod.splits)
  show ?thesis
    using h active_loop_faults_on_empty_queue
      [OF h, where n = 0 and t = 0
         and e = "example_env (example_helper 100 True ''500'') (example_handler None)"]
    by (simp del: reconcileActiveAccounts.simps)
qed


section \<open>The inactive loop: when the front entry is due\<close>

text \<open>
  C5. The claim: with \<^verbatim>\<open>requiredDepthInactive\<close> = 500, an entry requeued at block 1000
  is not popped at head 1400. The loop pops it: the entry that \<^verbatim>\<open>inactiveAccountQueue\<close>
  appends carries its block under \<^verbatim>\<open>lastCheck\<close>, the loop reads \<^verbatim>\<open>last_check\<close>, which is
  absent, and an absent \<^verbatim>\<open>last_check\<close> makes the entry due. At head 1400 the loop
  removes the entry from the queue and calls the fetcher for its account.
\<close>

theorem inactive_entry_popped_early:
  assumes "requiredDepthInactive r = 500" and "inactiveQueue r = []"
      and "index b = 1000" and "index head = 1400"
      and "currentBlock (helper e) t = Inr head"
  shows "inactive_front_due (inactiveAccountQueue (Hash e) True ac b r) head \<and>
     (\<exists>x. reconcileInactiveAccounts (Suc n) e t (inactiveAccountQueue (Hash e) True ac b r) =
        Some (x, r, [HelperCurrentBlock (Inr head),
                     FetcherAcountBalanceRetry (network e) (account_identifier ac)
                       (if lookupBalanceByBlock r then None
                        else Some (constructPartialBlockIdentifier e head))]))"
proof -
  let ?r = "inactiveAccountQueue (Hash e) True ac b r"
  have q: "inactiveQueue ?r = [\<lparr> entry = ac, lastCheck = Some b, last_check = None \<rparr>]"
    using assms(2) by (simp add: inactiveAccountQueue_def)
  have due: "inactive_front_due ?r head"
    by (simp add: inactive_front_due_def q)
  have pop: "?r\<lparr> inactiveQueue := [] \<rparr> = r"
    using assms(2) by (simp add: inactiveAccountQueue_def)
  obtain x where bb:
    "bestBalance e t r (account_identifier ac) (currency ac) (constructPartialBlockIdentifier e head) =
       (Inl x, [FetcherAcountBalanceRetry (network e) (account_identifier ac)
                  (if lookupBalanceByBlock r then None
                   else Some (constructPartialBlockIdentifier e head))])"
    using bestBalance_fails by blast
  have "reconcileInactiveAccounts (Suc n) e t ?r =
        Some (x, r, [HelperCurrentBlock (Inr head),
                     FetcherAcountBalanceRetry (network e) (account_identifier ac)
                       (if lookupBalanceByBlock r then None
                        else Some (constructPartialBlockIdentifier e head))])"
    using assms(5) due by (simp add: pop q bb Let_def)
  with due show ?thesis by blast
qed

theorem inactive_entry_popped_early_witness:
  "requiredDepthInactive example_reconciler = 500 \<and>
   inactiveQueue example_reconciler = [] \<and>
   index (example_block 1000) = 1000 \<and> index (example_block 1400) = 1400 \<and>
   inactive_front_due
     (inactiveAccountQueue example_Hash True example_account (example_block 1000) example_reconciler)
     (example_block 1400) \<and>
   (\<exists>x. reconcileInactiveAccounts 1
           (example_env (example_helper 1400 True ''500'') (example_handler None)) 0
           (inactiveAccountQueue example_Hash True example_account (example_block 1000)
              example_reconciler) =
         Some (x, example_reconciler,
               [HelperCurrentBlock (Inr (example_block 1400)),
                FetcherAcountBalanceRetry ''mainnet'' ''addr'' None]))"
proof -
  let ?e = "example_env (example_helper 1400 True ''500'') (example_handler None)"
  have h1: "requiredDepthInactive example_reconciler = 500"
    by (simp add: example_reconciler_def constructor_defs split: prod.splits)
  have h2: "inactiveQueue example_reconciler = []"
    by (simp add: example_reconciler_def new_inactiveQueue no_args_def or_default_def)
  have h3: "index (example_block 1000) = 1000" by (simp add: example_block_def)
  have h4: "index (example_block 1400) = 1400" by (simp add: example_block_def)
  have h5: "currentBlock (helper ?e) 0 = Inr (example_block 1400)"
    by (simp add: example_env_def example_helper_def)
  have env: "Hash ?e = example_Hash" "network ?e = ''mainnet''"
    by (simp_all add: example_env_def)
  have acc: "account_identifier example_account = ''addr''"
    by (simp add: example_account_def)
  have flag: "lookupBalanceByBlock example_reconciler"
    by (simp add: example_reconciler_def constructor_defs split: prod.splits)
  show ?thesis
    using h1 h2 h3 h4 env acc flag
      inactive_entry_popped_early [OF h1 h2 h3 h4 h5, where n = 0 and ac = example_account]
    by (simp del: reconcileInactiveAccounts.simps)
qed


section \<open>Seeding of the inactive queue\<close>

text \<open>
  C6. Over any sequence of reconciliations that reach the bookkeeping, started from
  any reconciler, the entries of the inactive queue for an account and currency with
  hash \<open>k\<close> grow by one for every inactive reconciliation of \<open>k\<close>, whatever the seen
  set holds, and by exactly one more for all the active reconciliations of \<open>k\<close>
  together, provided there is one and \<open>k\<close> was not in the seen set at the start; an
  account already seen is never appended from the active path. An account passed in
  \<^verbatim>\<open>withSeenAccounts\<close> is in the seen set of the constructed reconciler, and only
  those are.
\<close>

theorem seeding_counts:
  "queued H k (inactiveQueue (bookkeeping H runs r)) =
     queued H k (inactiveQueue r) + inactive_runs H k runs +
     (if seenAccounts r k = None \<and> k \<in> active_keys H runs then 1 else 0) \<and>
   (seenAccounts (new_RosettaReconciler H a) k = None) =
     (k \<notin> H ` set (or_default (arg_withSeenAccounts a) []))"
  by (simp only: bookkeeping_count new_seenAccounts) simp

theorem seeding_counts_witness:
  "queued example_Hash ''addr|DGB''
     (inactiveQueue (bookkeeping example_Hash
        [(False, example_account, example_block 10),
         (False, example_account, example_block 11),
         (True, example_account, example_block 600),
         (False, example_account, example_block 601)]
        example_reconciler)) = 2 \<and>
   queued example_Hash ''addr|DGB''
     (inactiveQueue (bookkeeping example_Hash
        [(False, example_account, example_block 10),
         (False, example_account, example_block 11)]
        (new_RosettaReconciler example_Hash
           (no_args\<lparr> arg_withSeenAccounts := Some [example_account] \<rparr>)))) = 1"
proof -
  have k: "example_Hash example_account = ''addr|DGB''"
    by (simp add: example_Hash_def example_account_def)
  have fresh: "seenAccounts example_reconciler ''addr|DGB'' = None"
    by (simp add: example_reconciler_def new_seenAccounts no_args_def or_default_def)
  have q0: "inactiveQueue example_reconciler = []"
    by (simp add: example_reconciler_def new_inactiveQueue no_args_def or_default_def)
  have seeded: "seenAccounts (new_RosettaReconciler example_Hash
                  (no_args\<lparr> arg_withSeenAccounts := Some [example_account] \<rparr>)) ''addr|DGB'' = Some ()"
    by (simp add: new_seenAccounts no_args_def or_default_def k)
  have q1: "inactiveQueue (new_RosettaReconciler example_Hash
                  (no_args\<lparr> arg_withSeenAccounts := Some [example_account] \<rparr>)) =
            [\<lparr> entry = example_account, lastCheck = None, last_check = None \<rparr>]"
    by (simp add: new_inactiveQueue no_args_def or_default_def)
  show ?thesis
    using seeding_counts [of example_Hash "''addr|DGB''"
        "[(False, example_account, example_block 10),
          (False, example_account, example_block 11),
          (True, example_account, example_block 600),
          (False, example_account, example_block 601)]" example_reconciler no_args]
      seeding_counts [of example_Hash "''addr|DGB''"
        "[(False, example_account, example_block 10),
          (False, example_account, example_block 11)]"
        "new_RosettaReconciler example_Hash (no_args\<lparr> arg_withSeenAccounts := Some [example_account] \<rparr>)"
        no_args]
    by (simp add: k fresh q0 seeded q1 queued_def inactive_runs_def active_keys_Cons active_keys_Nil
        del: bookkeeping.simps)
qed


end
